theory Spec2Isabelle
  imports Main "HOL-Library.Multiset"
begin

section \<open>Python strings\<close>

text \<open>
  A Python \<open>str\<close> is a sequence of code points. The model is \<^typ>\<open>string\<close>, a list of
  \<^typ>\<open>char\<close>, each \<^typ>\<open>char\<close> read as the code point of the same number
  (U+0000 to U+00FF), so that \<^const>\<open>length\<close> counts what \<open>len\<close> counts. The character
  predicates below are CPython's, restricted to that range.
\<close>

definition py_isspace :: "char \<Rightarrow> bool" where
  \<comment> \<open>\<open>str.isspace\<close> on one character; the regular expression class \<open>\s\<close> is the same set.\<close>
  "py_isspace c =
     (let n = (of_char c :: nat)
      in (9 \<le> n \<and> n \<le> 13) \<or> (28 \<le> n \<and> n \<le> 32) \<or> n = 133 \<or> n = 160)"

definition py_isdigit :: "char \<Rightarrow> bool" where
  \<comment> \<open>\<open>str.isdigit\<close> on one character: the ASCII digits and the superscripts U+00B2, U+00B3, U+00B9.\<close>
  "py_isdigit c =
     (let n = (of_char c :: nat)
      in (48 \<le> n \<and> n \<le> 57) \<or> n = 178 \<or> n = 179 \<or> n = 185)"

definition py_isalnum :: "char \<Rightarrow> bool" where
  \<comment> \<open>\<open>str.isalnum\<close> on one character: letters, digits and the other numeric characters.\<close>
  "py_isalnum c =
     (let n = (of_char c :: nat)
      in (48 \<le> n \<and> n \<le> 57) \<or> (65 \<le> n \<and> n \<le> 90) \<or> (97 \<le> n \<and> n \<le> 122)
         \<or> n = 170 \<or> n = 178 \<or> n = 179 \<or> n = 181 \<or> n = 185 \<or> n = 186
         \<or> (188 \<le> n \<and> n \<le> 190) \<or> (192 \<le> n \<and> n \<le> 214)
         \<or> (216 \<le> n \<and> n \<le> 246) \<or> (248 \<le> n \<and> n \<le> 255))"

definition ascii_alpha :: "char \<Rightarrow> bool" where
  \<comment> \<open>the class \<open>[a-zA-Z]\<close>\<close>
  "ascii_alpha c =
     (let n = (of_char c :: nat) in (65 \<le> n \<and> n \<le> 90) \<or> (97 \<le> n \<and> n \<le> 122))"

definition ascii_digit :: "char \<Rightarrow> bool" where
  \<comment> \<open>the class \<open>[0-9]\<close>\<close>
  "ascii_digit c = (let n = (of_char c :: nat) in 48 \<le> n \<and> n \<le> 57)"

definition isdigit :: "string \<Rightarrow> bool" where
  \<comment> \<open>\<open>s.isdigit()\<close>: at least one character, and every character a digit.\<close>
  "isdigit s = (s \<noteq> [] \<and> list_all py_isdigit s)"

definition strip :: "string \<Rightarrow> string" where
  \<comment> \<open>\<open>s.strip()\<close>: whitespace removed at both ends.\<close>
  "strip s = rev (dropWhile py_isspace (rev (dropWhile py_isspace s)))"

fun startswith :: "string \<Rightarrow> string \<Rightarrow> bool" where
  "startswith s [] = True"
| "startswith [] (c # t) = False"
| "startswith (d # s) (c # t) = (d = c \<and> startswith s t)"

fun py_in :: "string \<Rightarrow> string \<Rightarrow> bool" where
  \<comment> \<open>\<open>t in s\<close> for strings: \<open>t\<close> occurs in \<open>s\<close> as a contiguous substring.\<close>
  "py_in t [] = (t = [])"
| "py_in t (d # s) = (startswith (d # s) t \<or> py_in t s)"

definition ascii_lower :: "char \<Rightarrow> char" where
  \<comment> \<open>lower case of an ASCII letter; every other character is itself.\<close>
  "ascii_lower c =
     (let n = (of_char c :: nat) in if 65 \<le> n \<and> n \<le> 90 then char_of (n + 32) else c)"

section \<open>Regular expressions\<close>

text \<open>
  The two patterns of the validators are written as values of a small regular expression
  type and matched by derivatives. \<open>Rep n r\<close> is \<open>r{n,}\<close>, so \<open>r+\<close> is \<open>Rep 1 r\<close>.
\<close>

datatype regex =
    Empty
  | Eps
  | Class "char \<Rightarrow> bool"
  | Seq regex regex
  | Alt regex regex
  | Rep nat regex

fun nullable :: "regex \<Rightarrow> bool" where
  "nullable Empty = False"
| "nullable Eps = True"
| "nullable (Class p) = False"
| "nullable (Seq r s) = (nullable r \<and> nullable s)"
| "nullable (Alt r s) = (nullable r \<or> nullable s)"
| "nullable (Rep n r) = (n = 0 \<or> nullable r)"

fun deriv :: "char \<Rightarrow> regex \<Rightarrow> regex" where
  "deriv c Empty = Empty"
| "deriv c Eps = Empty"
| "deriv c (Class p) = (if p c then Eps else Empty)"
| "deriv c (Seq r s) =
     (if nullable r then Alt (Seq (deriv c r) s) (deriv c s) else Seq (deriv c r) s)"
| "deriv c (Alt r s) = Alt (deriv c r) (deriv c s)"
| "deriv c (Rep n r) = Seq (deriv c r) (Rep (n - 1) r)"

fun fullmatch :: "regex \<Rightarrow> string \<Rightarrow> bool" where
  "fullmatch r [] = nullable r"
| "fullmatch r (c # s) = fullmatch (deriv c r) s"

definition re_match_anchored :: "regex \<Rightarrow> string \<Rightarrow> bool" where
  \<comment> \<open>\<open>re.match('^r$', s)\<close> finds a match: \<open>$\<close> matches at the end of the string and
      just before a newline that ends the string.\<close>
  "re_match_anchored r s =
     (fullmatch r s \<or> (s \<noteq> [] \<and> last s = CHR 0x0A \<and> fullmatch r (butlast s)))"

text \<open>
  The words a regular expression stands for; \<open>fullmatch\<close> decides membership
  (lemma \<open>fullmatch_lang\<close> below).
\<close>

fun lang :: "regex \<Rightarrow> string set" where
  "lang Empty = {}"
| "lang Eps = {[]}"
| "lang (Class p) = {[c] | c. p c}"
| "lang (Seq r s) = {u @ v | u v. u \<in> lang r \<and> v \<in> lang s}"
| "lang (Alt r s) = lang r \<union> lang s"
| "lang (Rep n r) = {concat ws | ws. n \<le> length ws \<and> set ws \<subseteq> lang r}"

section \<open>InputValidator\<close>

definition name_class :: "char \<Rightarrow> bool" where
  \<comment> \<open>the class \<open>[\w\s.\-]\<close>\<close>
  "name_class c =
     (py_isalnum c \<or> c = CHR ''_'' \<or> py_isspace c \<or> c = CHR ''.'' \<or> c = CHR ''-'')"

definition email_local_class :: "char \<Rightarrow> bool" where
  \<comment> \<open>the class \<open>[a-zA-Z0-9._%+-]\<close>\<close>
  "email_local_class c =
     (ascii_alpha c \<or> ascii_digit c \<or> c = CHR ''.'' \<or> c = CHR ''_'' \<or> c = CHR ''%''
      \<or> c = CHR ''+'' \<or> c = CHR ''-'')"

definition email_domain_class :: "char \<Rightarrow> bool" where
  \<comment> \<open>the class \<open>[a-zA-Z0-9.-]\<close>\<close>
  "email_domain_class c = (ascii_alpha c \<or> ascii_digit c \<or> c = CHR ''.'' \<or> c = CHR ''-'')"

definition name_regex :: regex where
  "name_regex = Rep 1 (Class name_class)"

definition email_regex :: regex where
  "email_regex =
     Seq (Rep 1 (Class email_local_class))
       (Seq (Class (\<lambda>c. c = CHR ''@''))
         (Seq (Rep 1 (Class email_domain_class))
           (Seq (Class (\<lambda>c. c = CHR ''.'')) (Rep 2 (Class ascii_alpha)))))"

definition validate_name :: "string \<Rightarrow> bool \<times> string" where
  "validate_name name =
     (if strip name = [] then (False, ''Name cannot be empty.'')
      else if length (strip name) < 2 then (False, ''Name must be at least 2 characters.'')
      else if \<not> re_match_anchored name_regex name
        then (False, ''Name contains invalid characters.'')
      else (True, ''''))"

definition validate_email :: "string \<Rightarrow> bool \<times> string" where
  "validate_email email =
     (if strip email = [] then (False, ''Email cannot be empty.'')
      else if \<not> re_match_anchored email_regex email then (False, ''Invalid email format.'')
      else (True, ''''))"

definition re_sub_phone :: "string \<Rightarrow> string" where
  \<comment> \<open>\<open>re.sub(r'[\s\-()]', '', phone)\<close>: every character of the class is deleted.\<close>
  "re_sub_phone phone =
     filter (\<lambda>c. \<not> (py_isspace c \<or> c = CHR ''-'' \<or> c = CHR ''('' \<or> c = CHR '')'')) phone"

definition validate_phone :: "string \<Rightarrow> bool \<times> string" where
  "validate_phone phone =
     (let p = re_sub_phone phone
      in if \<not> isdigit p \<or> \<not> (10 \<le> length p \<and> length p \<le> 15)
         then (False, ''Phone must be 10-15 digits.'')
         else (True, ''''))"

definition validate_pincode :: "string \<Rightarrow> bool \<times> string" where
  "validate_pincode pin =
     (if \<not> isdigit pin \<or> length pin \<notin> {5, 6}
      then (False, ''Pincode must be 5 or 6 digits.'')
      else (True, ''''))"

section \<open>The form\<close>

text \<open>
  The ten entry widgets of the form, each by the text its \<open>get()\<close> returns. A dictionary
  is a map from keys to values; here every value is a string.
\<close>

record entries =
  name_get :: string
  email_get :: string
  phone_get :: string
  college_get :: string
  department_get :: string
  year_get :: string
  address_get :: string
  city_get :: string
  state_get :: string
  pincode_get :: string

type_synonym dict = "string \<rightharpoonup> string"

datatype widget = NameEntry | EmailEntry | PhoneEntry | PincodeEntry

text \<open>
  \<open>get_form\<close> returns \<open>(False, {})\<close> after showing the validator's message and giving
  the focus to the offending widget, or \<open>(True, data)\<close>. The model returns the message and
  the focused widget on the left, the dictionary on the right.
\<close>

definition get_form :: "entries \<Rightarrow> (string \<times> widget) + dict" where
  "get_form w =
     (let name = strip (name_get w);
          email = strip (email_get w);
          phone = re_sub_phone (strip (phone_get w));
          college = strip (college_get w);
          department = strip (department_get w);
          year = strip (year_get w);
          address = strip (address_get w);
          city = strip (city_get w);
          state = strip (state_get w);
          pincode = strip (pincode_get w)
      in if \<not> fst (validate_name name) then Inl (snd (validate_name name), NameEntry)
         else if \<not> fst (validate_email email) then Inl (snd (validate_email email), EmailEntry)
         else if \<not> fst (validate_phone phone) then Inl (snd (validate_phone phone), PhoneEntry)
         else if \<not> fst (validate_pincode pincode)
           then Inl (snd (validate_pincode pincode), PincodeEntry)
         else Inr (map_of
           [(''name'', name), (''email'', email), (''phone'', phone), (''college'', college),
            (''department'', department), (''year'', year), (''address'', address),
            (''city'', city), (''state'', state), (''pincode'', pincode)]))"

section \<open>The table\<close>

text \<open>
  One row of the table \<open>students\<close>, with the thirteen columns of \<open>CREATE TABLE\<close> in their
  order. Every column but the key holds text. The database is the table, in the order the
  rows were written, and the counter that \<open>AUTOINCREMENT\<close> keeps in \<open>sqlite_sequence\<close>:
  the largest key ever assigned. Failures of the file system are outside the model.
\<close>

record student =
  student_id :: int
  student_name :: string
  student_email :: string
  student_phone :: string
  student_college :: string
  student_department :: string
  student_year :: string
  student_address :: string
  student_city :: string
  student_state :: string
  student_pincode :: string
  date_added :: string
  last_modified :: string

record database =
  students :: "student list"
  sqlite_sequence :: int

definition new_database :: database where
  \<comment> \<open>\<open>initialize_database\<close> on a file that does not exist yet: the empty table.\<close>
  "new_database = \<lparr>students = [], sqlite_sequence = 0\<rparr>"

datatype exn = IntegrityError string | ProgrammingError string | KeyError string

fun str_exn :: "exn \<Rightarrow> string" where
  \<comment> \<open>\<open>str(e)\<close>; a \<open>KeyError\<close> prints its key between quotes.\<close>
  "str_exn (IntegrityError m) = m"
| "str_exn (ProgrammingError m) = m"
| "str_exn (KeyError k) = [CHR 0x27] @ k @ [CHR 0x27]"

fun getitems :: "dict \<Rightarrow> string list \<Rightarrow> exn + string list" where
  \<comment> \<open>the tuple \<open>(data[k1], data[k2], ...)\<close>, evaluated from the left: the first key that
      is missing raises \<open>KeyError\<close>.\<close>
  "getitems data [] = Inr []"
| "getitems data (k # ks) =
     (case data k of
        None \<Rightarrow> Inl (KeyError k)
      | Some v \<Rightarrow> (case getitems data ks of Inl e \<Rightarrow> Inl e | Inr vs \<Rightarrow> Inr (v # vs)))"

definition unique_violation :: "student list \<Rightarrow> string \<Rightarrow> string \<Rightarrow> exn option" where
  \<comment> \<open>The two unique indices, checked against the rows \<open>others\<close> when a row with this
      email and phone is written. SQLite checks the indices of a table from the one created
      last, so \<open>idx_students_phone\<close> is checked before \<open>idx_students_email\<close>, and the first
      that fails raises.\<close>
  "unique_violation others email phone =
     (if phone \<in> set (map student_phone others)
        then Some (IntegrityError ''UNIQUE constraint failed: students.student_phone'')
      else if email \<in> set (map student_email others)
        then Some (IntegrityError ''UNIQUE constraint failed: students.student_email'')
      else None)"

definition next_rowid :: "database \<Rightarrow> int" where
  \<comment> \<open>\<open>AUTOINCREMENT\<close>: one more than the largest key the table holds or ever held.\<close>
  "next_rowid db = fold max (map student_id (students db)) (sqlite_sequence db) + 1"

definition sql_insert :: "database \<Rightarrow> string list \<Rightarrow> exn + database" where
  \<comment> \<open>\<open>INSERT INTO students (student_name, ..., last_modified) VALUES (?, ..., ?)\<close> with
      the parameters \<open>vs\<close>, and the commit.\<close>
  "sql_insert db vs =
     (if length vs \<noteq> 12 then Inl (ProgrammingError ''Incorrect number of bindings supplied.'')
      else case unique_violation (students db) (vs ! 1) (vs ! 2) of
        Some e \<Rightarrow> Inl e
      | None \<Rightarrow>
          Inr \<lparr>students = students db @
                 [\<lparr>student_id = next_rowid db, student_name = vs ! 0, student_email = vs ! 1,
                   student_phone = vs ! 2, student_college = vs ! 3,
                   student_department = vs ! 4, student_year = vs ! 5,
                   student_address = vs ! 6, student_city = vs ! 7, student_state = vs ! 8,
                   student_pincode = vs ! 9, date_added = vs ! 10, last_modified = vs ! 11\<rparr>],
               sqlite_sequence = next_rowid db\<rparr>)"

definition set_columns :: "string list \<Rightarrow> student \<Rightarrow> student" where
  \<comment> \<open>the \<open>SET\<close> clause of the \<open>UPDATE\<close>, on one row\<close>
  "set_columns vs r =
     r\<lparr>student_name := vs ! 0, student_email := vs ! 1, student_phone := vs ! 2,
       student_college := vs ! 3, student_department := vs ! 4, student_year := vs ! 5,
       student_address := vs ! 6, student_city := vs ! 7, student_state := vs ! 8,
       student_pincode := vs ! 9, last_modified := vs ! 10\<rparr>"

definition sql_update :: "database \<Rightarrow> string list \<Rightarrow> int \<Rightarrow> exn + (database \<times> nat)" where
  \<comment> \<open>\<open>UPDATE students SET student_name=?, ..., last_modified=? WHERE student_id=?\<close>
      and the commit; the result carries \<open>rowcount\<close>. \<open>student_id\<close> is the primary key, so at
      most one row has the key; the indices are checked against the other rows.\<close>
  "sql_update db vs sid =
     (if length vs \<noteq> 11 then Inl (ProgrammingError ''Incorrect number of bindings supplied.'')
      else if filter (\<lambda>r. student_id r = sid) (students db) = [] then Inr (db, 0)
      else case unique_violation (filter (\<lambda>r. student_id r \<noteq> sid) (students db))
                  (vs ! 1) (vs ! 2) of
        Some e \<Rightarrow> Inl e
      | None \<Rightarrow>
          Inr (db\<lparr>students :=
                    map (\<lambda>r. if student_id r = sid then set_columns vs r else r) (students db)\<rparr>,
               length (filter (\<lambda>r. student_id r = sid) (students db))))"

definition sql_delete :: "database \<Rightarrow> int \<Rightarrow> database" where
  \<comment> \<open>\<open>DELETE FROM students WHERE student_id=?\<close> and the commit\<close>
  "sql_delete db sid = db\<lparr>students := filter (\<lambda>r. student_id r \<noteq> sid) (students db)\<rparr>"

fun like :: "string \<Rightarrow> string \<Rightarrow> bool" where
  \<comment> \<open>\<open>s LIKE p\<close> of SQLite, as \<open>like p s\<close>: \<open>%\<close> matches any run of characters, \<open>_\<close> any
      one character, and every other character itself, ASCII letters without regard to
      case. No character escapes another.\<close>
  "like [] [] = True"
| "like [] (c # s) = False"
| "like (p # ps) [] = (p = CHR ''%'' \<and> like ps [])"
| "like (p # ps) (c # s) =
     (if p = CHR ''%'' then like ps (c # s) \<or> like (p # ps) s
      else (p = CHR ''_'' \<or> ascii_lower p = ascii_lower c) \<and> like ps s)"

type_synonym row =
  "int \<times> string \<times> string \<times> string \<times> string \<times> string \<times> string \<times> string \<times> string
     \<times> string \<times> string \<times> string \<times> string"

definition select_columns :: "student \<Rightarrow> row" where
  \<comment> \<open>the column list of both \<open>SELECT\<close> statements\<close>
  "select_columns r =
     (student_id r, student_name r, student_email r, student_phone r, student_college r,
      student_department r, student_year r, student_address r, student_city r,
      student_state r, student_pincode r, date_added r, last_modified r)"

definition order_by_id_desc :: "student list \<Rightarrow> student list" where
  \<comment> \<open>\<open>ORDER BY student_id DESC\<close>\<close>
  "order_by_id_desc rs = sort_key (\<lambda>r. - student_id r) rs"

section \<open>DatabaseManager\<close>

definition insert_keys :: "string list" where
  "insert_keys =
     [''name'', ''email'', ''phone'', ''college'', ''department'', ''year'', ''address'',
      ''city'', ''state'', ''pincode'', ''date_added'', ''last_modified'']"

definition update_keys :: "string list" where
  "update_keys =
     [''name'', ''email'', ''phone'', ''college'', ''department'', ''year'', ''address'',
      ''city'', ''state'', ''pincode'', ''last_modified'']"

definition lower :: "string \<Rightarrow> string" where
  \<comment> \<open>\<open>str.lower\<close>, on the ASCII text of an error message\<close>
  "lower s = map ascii_lower s"

definition insert_student :: "database \<Rightarrow> dict \<Rightarrow> (bool \<times> string) \<times> database" where
  "insert_student db data =
     (case (case getitems data insert_keys of Inl e \<Rightarrow> Inl e | Inr vs \<Rightarrow> sql_insert db vs) of
        Inr db' \<Rightarrow> ((True, ''''), db')
      | Inl (IntegrityError m) \<Rightarrow>
          (let msg = lower m
           in if py_in ''email'' msg then ((False, ''Email already exists.''), db)
              else if py_in ''phone'' msg then ((False, ''Phone already exists.''), db)
              else ((False, ''Integrity error: '' @ m), db))
      | Inl e \<Rightarrow> ((False, str_exn e), db))"

definition get_all_students :: "database \<Rightarrow> row list" where
  "get_all_students db = map select_columns (order_by_id_desc (students db))"

definition update_student :: "database \<Rightarrow> int \<Rightarrow> dict \<Rightarrow> (bool \<times> string) \<times> database" where
  "update_student db sid data =
     (case (case getitems data update_keys of Inl e \<Rightarrow> Inl e | Inr vs \<Rightarrow> sql_update db vs sid) of
        Inr (db', rowcount) \<Rightarrow>
          if rowcount = 0 then ((False, ''No row updated (ID may not exist).''), db')
          else ((True, ''''), db')
      | Inl (IntegrityError m) \<Rightarrow>
          (let msg = lower m
           in if py_in ''email'' msg then ((False, ''Email already exists.''), db)
              else if py_in ''phone'' msg then ((False, ''Phone already exists.''), db)
              else ((False, m), db))
      | Inl e \<Rightarrow> ((False, str_exn e), db))"

definition delete_student :: "database \<Rightarrow> int \<Rightarrow> (bool \<times> string) \<times> database" where
  "delete_student db sid = ((True, ''''), sql_delete db sid)"

definition search_students :: "database \<Rightarrow> string \<Rightarrow> row list" where
  "search_students db term =
     (let q = ''%'' @ term @ ''%''
      in map select_columns (order_by_id_desc
           (filter (\<lambda>r. like q (student_name r) \<or> like q (student_email r)
                        \<or> like q (student_phone r) \<or> like q (student_college r)
                        \<or> like q (student_department r) \<or> like q (student_city r))
              (students db))))"

section \<open>StudentManagementApp\<close>

text \<open>
  The handlers of the application, by what they do to the database and which message box
  they show. The clock reading \<open>datetime.now().strftime('%Y-%m-%d %H:%M:%S')\<close> is the
  parameter \<open>now\<close>; the selected row of the table is given by the key it shows.
\<close>

datatype messagebox =
    ShowInfo string string
  | ShowError string string
  | ShowWarning string string
  | NoMessage

definition add_student :: "database \<Rightarrow> entries \<Rightarrow> string \<Rightarrow> messagebox \<times> database" where
  "add_student db w now =
     (case get_form w of
        Inl (msg, focus) \<Rightarrow> (ShowError ''Validation'' msg, db)
      | Inr data \<Rightarrow>
          (case insert_student db (data(''date_added'' \<mapsto> now, ''last_modified'' \<mapsto> now)) of
             ((success, err), db') \<Rightarrow>
               if success then (ShowInfo ''Success'' ''Student added'', db')
               else (ShowError ''Error'' err, db')))"

definition update_student_app ::
  "database \<Rightarrow> int option \<Rightarrow> entries \<Rightarrow> string \<Rightarrow> messagebox \<times> database" where
  "update_student_app db sel w now =
     (case sel of
        None \<Rightarrow> (ShowWarning ''Select'' ''Select a row to update'', db)
      | Some sid \<Rightarrow>
          (case get_form w of
             Inl (msg, focus) \<Rightarrow> (ShowError ''Validation'' msg, db)
           | Inr data \<Rightarrow>
               (case update_student db sid (data(''last_modified'' \<mapsto> now)) of
                  ((success, err), db') \<Rightarrow>
                    if success then (ShowInfo ''Success'' ''Updated'', db')
                    else (ShowError ''Error'' err, db'))))"

definition delete_student_app ::
  "database \<Rightarrow> int option \<Rightarrow> bool \<Rightarrow> messagebox \<times> database" where
  \<comment> \<open>\<open>confirm\<close> is the answer to the question \<open>Delete selected student?\<close>\<close>
  "delete_student_app db sel confirm =
     (case sel of
        None \<Rightarrow> (ShowWarning ''Select'' ''Select a row to delete'', db)
      | Some sid \<Rightarrow>
          if confirm then
            (case delete_student db sid of
               ((success, err), db') \<Rightarrow>
                 if success then (ShowInfo ''Deleted'' ''Student deleted'', db')
                 else (ShowError ''Error'' err, db'))
          else (NoMessage, db))"

definition load_students :: "database \<Rightarrow> row list" where
  \<comment> \<open>the rows the table widget shows afterwards\<close>
  "load_students db = get_all_students db"

definition search_students_app :: "database \<Rightarrow> string \<Rightarrow> row list" where
  \<comment> \<open>the rows the table widget shows after a key is released in the search entry\<close>
  "search_students_app db search_get =
     (let term = strip search_get
      in if term = [] then load_students db else search_students db term)"

section \<open>Notions of the specification\<close>

definition spec_strip_phone :: "string \<Rightarrow> string" where
  \<comment> \<open>The specification's words for the first step of \<open>validate_phone\<close>: spaces, hyphens
      and parentheses are stripped, nothing else.\<close>
  "spec_strip_phone s =
     filter (\<lambda>c. \<not> (c = CHR '' '' \<or> c = CHR ''-'' \<or> c = CHR ''('' \<or> c = CHR '')'')) s"

fun str_le :: "string \<Rightarrow> string \<Rightarrow> bool" where
  \<comment> \<open>\<open>s <= t\<close> on strings, which on two timestamps of the format
      \<open>%Y-%m-%d %H:%M:%S\<close> says that the first is not the later one.\<close>
  "str_le [] t = True"
| "str_le (c # s) [] = False"
| "str_le (c # s) (d # t) = ((of_char c :: nat) < of_char d \<or> (c = d \<and> str_le s t))"

definition timestamps_ordered :: "database \<Rightarrow> bool" where
  \<comment> \<open>the invariant \<open>last_modified \<ge> date_added\<close> on every row of the table\<close>
  "timestamps_ordered db =
     list_all (\<lambda>r. str_le (date_added r) (last_modified r)) (students db)"

section \<open>Example data\<close>

definition ann :: entries where
  "ann = \<lparr>name_get = ''Ann Lee'', email_get = ''ann@x.com'', phone_get = ''98-765 (43210)'',
          college_get = ''City College'', department_get = ''Civil'', year_get = ''1st Year'',
          address_get = ''1 Main St'', city_get = ''Pune'', state_get = ''MH'',
          pincode_get = ''560001''\<rparr>"

definition bob :: entries where
  "bob = \<lparr>name_get = ''Bob Ray'', email_get = ''bob@x.com'', phone_get = ''1234567890'',
          college_get = ''City College'', department_get = ''Civil'', year_get = ''2nd Year'',
          address_get = ''2 Main St'', city_get = ''Pune'', state_get = ''MH'',
          pincode_get = ''56000''\<rparr>"

definition ann_row :: student where
  "ann_row =
     \<lparr>student_id = 1, student_name = ''Ann Lee'', student_email = ''ann@x.com'',
      student_phone = ''9876543210'', student_college = ''City College'',
      student_department = ''Civil'', student_year = ''1st Year'',
      student_address = ''1 Main St'', student_city = ''Pune'', student_state = ''MH'',
      student_pincode = ''560001'', date_added = ''2024-11-03 01:59:59'',
      last_modified = ''2024-11-03 01:59:59''\<rparr>"

definition bob_row :: student where
  "bob_row =
     \<lparr>student_id = 2, student_name = ''Bob Ray'', student_email = ''bob@x.com'',
      student_phone = ''1234567890'', student_college = ''City College'',
      student_department = ''Civil'', student_year = ''2nd Year'',
      student_address = ''2 Main St'', student_city = ''Pune'', student_state = ''MH'',
      student_pincode = ''56000'', date_added = ''2024-11-03 02:10:00'',
      last_modified = ''2024-11-03 02:10:00''\<rparr>"

definition ann_db :: database where
  \<comment> \<open>the database after Ann Lee was added to the empty table\<close>
  "ann_db = \<lparr>students = [ann_row], sqlite_sequence = 1\<rparr>"

definition ann_bob_db :: database where
  \<comment> \<open>the database after Bob Ray was added next\<close>
  "ann_bob_db = \<lparr>students = [ann_row, bob_row], sqlite_sequence = 2\<rparr>"

definition ann_data :: dict where
  \<comment> \<open>the dictionary \<open>add_student\<close> builds from the entries of Ann Lee\<close>
  "ann_data = map_of
     [(''name'', ''Ann Lee''), (''email'', ''ann@x.com''), (''phone'', ''9876543210''),
      (''college'', ''City College''), (''department'', ''Civil''), (''year'', ''1st Year''),
      (''address'', ''1 Main St''), (''city'', ''Pune''), (''state'', ''MH''),
      (''pincode'', ''560001''), (''date_added'', ''2024-11-03 01:59:59''),
      (''last_modified'', ''2024-11-03 01:59:59'')]"

definition bob_data :: dict where
  "bob_data = map_of
     [(''name'', ''Bob Ray''), (''email'', ''bob@x.com''), (''phone'', ''1234567890''),
      (''college'', ''City College''), (''department'', ''Civil''), (''year'', ''2nd Year''),
      (''address'', ''2 Main St''), (''city'', ''Pune''), (''state'', ''MH''),
      (''pincode'', ''56000''), (''date_added'', ''2024-11-03 02:10:00''),
      (''last_modified'', ''2024-11-03 02:10:00'')]"

definition cy :: entries where
  \<comment> \<open>entries for an update, some with blanks and punctuation to strip\<close>
  "cy = \<lparr>name_get = ''  Cy Young '', email_get = ''cy@x.com'', phone_get = ''(555) 555-5555'',
         college_get = ''Hill College'', department_get = ''Other'', year_get = ''3rd Year'',
         address_get = ''3 Side St'', city_get = ''Goa'', state_get = ''GA'',
         pincode_get = ''40300''\<rparr>"

definition cy_update :: dict where
  \<comment> \<open>the dictionary the handler builds from these entries at 03:00:00\<close>
  "cy_update = map_of
     [(''name'', ''Cy Young''), (''email'', ''cy@x.com''), (''phone'', ''5555555555''),
      (''college'', ''Hill College''), (''department'', ''Other''), (''year'', ''3rd Year''),
      (''address'', ''3 Side St''), (''city'', ''Goa''), (''state'', ''GA''),
      (''pincode'', ''40300''), (''last_modified'', ''2024-11-03 03:00:00'')]"

definition cy_row :: student where
  "cy_row =
     \<lparr>student_id = 1, student_name = ''Cy Young'', student_email = ''cy@x.com'',
      student_phone = ''5555555555'', student_college = ''Hill College'',
      student_department = ''Other'', student_year = ''3rd Year'',
      student_address = ''3 Side St'', student_city = ''Goa'', student_state = ''GA'',
      student_pincode = ''40300'', date_added = ''2024-11-03 01:59:59'',
      last_modified = ''2024-11-03 03:00:00''\<rparr>"

definition cy_bob_db :: database where
  \<comment> \<open>the two-row table after the row with key 1 was updated from these entries\<close>
  "cy_bob_db = \<lparr>students = [cy_row, bob_row], sqlite_sequence = 2\<rparr>"

section \<open>Basic facts\<close>

lemma add_student_ann:
  "add_student new_database ann ''2024-11-03 01:59:59'' =
     (ShowInfo ''Success'' ''Student added'', ann_db)"
  by code_simp

lemma add_student_bob:
  "add_student ann_db bob ''2024-11-03 02:10:00'' =
     (ShowInfo ''Success'' ''Student added'', ann_bob_db)"
  by code_simp

lemma like_percent_percent: "like ''%%'' s"
  by (induction s) simp_all

lemma str_le_refl: "str_le s s"
  by (induction s) auto

lemma mset_order_by_id_desc: "mset (order_by_id_desc rs) = mset rs"
  by (simp add: order_by_id_desc_def)

lemma sorted_order_by_id_desc:
  "sorted_wrt (\<lambda>a b. student_id b \<le> student_id a) (order_by_id_desc rs)"
proof -
  have "sorted (map (\<lambda>r. - student_id r) (order_by_id_desc rs))"
    by (simp add: order_by_id_desc_def)
  then show ?thesis
    by (simp add: sorted_wrt_map)
qed

lemma sort_key_new_least:
  "\<forall>x \<in> set xs. k r < k x \<Longrightarrow> sort_key k (xs @ [r]) = r # sort_key k xs"
  by (induction xs) (auto simp: sort_key_def)

lemma fold_max_ge: "(a::int) \<le> fold max xs a \<and> (\<forall>x \<in> set xs. x \<le> fold max xs a)"
proof (induction xs arbitrary: a)
  case Nil
  then show ?case by simp
next
  case (Cons x xs)
  from Cons.IH [of "max x a"] show ?case
    by auto
qed

lemma next_rowid_fresh:
  "sqlite_sequence db < next_rowid db
   \<and> (\<forall>r \<in> set (students db). student_id r < next_rowid db)"
  using fold_max_ge [of "sqlite_sequence db" "map student_id (students db)"]
  by (auto simp: next_rowid_def)

subsection \<open>The matcher decides the language of the pattern\<close>

lemma nullable_lang: "nullable r \<longleftrightarrow> [] \<in> lang r"
proof (induction r)
  case (Rep n r)
  show ?case
  proof
    assume "nullable (Rep n r)"
    then have "n = 0 \<or> [] \<in> lang r"
      using Rep.IH by simp
    then have "concat (replicate n ([]::string)) = [] \<and> n \<le> length (replicate n ([]::string))
        \<and> set (replicate n ([]::string)) \<subseteq> lang r"
      by (auto simp: concat_replicate_trivial)
    then show "[] \<in> lang (Rep n r)"
      by (metis (mono_tags, lifting) lang.simps(6) mem_Collect_eq)
  next
    assume "[] \<in> lang (Rep n r)"
    then obtain ws where ws: "concat ws = []" "n \<le> length ws" "set ws \<subseteq> lang r"
      by auto
    show "nullable (Rep n r)"
    proof (cases ws)
      case Nil
      with ws show ?thesis by simp
    next
      case (Cons w ws')
      with ws have "[] \<in> lang r" by auto
      then show ?thesis using Rep.IH by simp
    qed
  qed
qed auto

lemma concat_Cons_split:
  "concat ws' = c # s \<Longrightarrow> set ws' \<subseteq> L \<Longrightarrow>
     \<exists>u ws. s = u @ concat ws \<and> c # u \<in> L \<and> length ws + 1 = length ws' \<and> set ws \<subseteq> L"
proof (induction ws')
  case Nil
  then show ?case by simp
next
  case (Cons w ws1)
  show ?case
  proof (cases w)
    case Nil
    with Cons.prems have "concat ws1 = c # s" "set ws1 \<subseteq> L" "[] \<in> L"
      by auto
    with Cons.IH obtain u ws where
      "s = u @ concat ws" "c # u \<in> L" "length ws + 1 = length ws1" "set ws \<subseteq> L"
      by blast
    with \<open>[] \<in> L\<close> have "s = u @ concat ([] # ws) \<and> c # u \<in> L
        \<and> length ([] # ws) + 1 = length (w # ws1) \<and> set ([] # ws) \<subseteq> L"
      by simp
    then show ?thesis by blast
  next
    case (Cons d u)
    with Cons.prems have "s = u @ concat ws1 \<and> c # u \<in> L
        \<and> length ws1 + 1 = length (w # ws1) \<and> set ws1 \<subseteq> L"
      by auto
    then show ?thesis by blast
  qed
qed

lemma deriv_lang: "s \<in> lang (deriv c r) \<longleftrightarrow> c # s \<in> lang r"
proof (induction r arbitrary: s)
  case (Seq r1 r2)
  show ?case
    by (auto simp: Seq.IH nullable_lang Cons_eq_append_conv)
next
  case (Rep n r)
  show ?case
  proof
    assume "s \<in> lang (deriv c (Rep n r))"
    then obtain u ws where "s = u @ concat ws" "c # u \<in> lang r" "n - 1 \<le> length ws"
      "set ws \<subseteq> lang r"
      using Rep.IH by auto
    then have "c # s = concat ((c # u) # ws) \<and> n \<le> length ((c # u) # ws)
        \<and> set ((c # u) # ws) \<subseteq> lang r"
      by auto
    then show "c # s \<in> lang (Rep n r)"
      unfolding lang.simps by blast
  next
    assume "c # s \<in> lang (Rep n r)"
    then obtain ws' where "concat ws' = c # s" "n \<le> length ws'" "set ws' \<subseteq> lang r"
      by auto
    with concat_Cons_split [of ws' c s "lang r"] obtain u ws where
      "s = u @ concat ws" "c # u \<in> lang r" "n - 1 \<le> length ws" "set ws \<subseteq> lang r"
      by auto
    then show "s \<in> lang (deriv c (Rep n r))"
      using Rep.IH by auto
  qed
qed auto

lemma fullmatch_lang: "fullmatch r s \<longleftrightarrow> s \<in> lang r"
  by (induction s arbitrary: r) (simp_all add: nullable_lang deriv_lang)

subsection \<open>Dictionaries\<close>

lemma getitems_present:
  "set ks \<subseteq> dom data \<Longrightarrow> getitems data ks = Inr (map (\<lambda>k. the (data k)) ks)"
  by (induction ks) auto

lemma getitems_Inl_KeyError: "getitems data ks = Inl e \<Longrightarrow> \<exists>k. e = KeyError k"
  by (induction ks) (auto split: option.splits sum.splits)

lemma getitems_Inr_dom: "getitems data ks = Inr vs \<Longrightarrow> set ks \<subseteq> dom data"
  by (induction ks arbitrary: vs) (auto split: option.splits sum.splits)

lemma get_form_keys:
  assumes "get_form w = Inr data"
  shows "dom data = {''name'', ''email'', ''phone'', ''college'', ''department'', ''year'',
     ''address'', ''city'', ''state'', ''pincode''}"
  using assms by (auto simp: get_form_def Let_def split: if_splits)

subsection \<open>The messages of the two indices\<close>

lemma message_of_email_index:
  "py_in ''email'' (lower ''UNIQUE constraint failed: students.student_email'')"
  by code_simp

lemma message_of_phone_index:
  "\<not> py_in ''email'' (lower ''UNIQUE constraint failed: students.student_phone'')"
  "py_in ''phone'' (lower ''UNIQUE constraint failed: students.student_phone'')"
  by code_simp+

subsection \<open>What an insert and an update return\<close>

lemma insert_student_True_keys:
  assumes "insert_student db data = ((True, m), db')"
  shows "set insert_keys \<subseteq> dom data"
proof (cases "getitems data insert_keys")
  case (Inl e)
  then obtain k where "e = KeyError k"
    using getitems_Inl_KeyError by blast
  with Inl assms show ?thesis
    by (simp add: insert_student_def)
next
  case (Inr vs)
  then show ?thesis
    by (rule getitems_Inr_dom)
qed

lemma insert_student_result:
  assumes "set insert_keys \<subseteq> dom data"
  shows "insert_student db data =
     (if the (data ''phone'') \<in> set (map student_phone (students db))
        then ((False, ''Phone already exists.''), db)
      else if the (data ''email'') \<in> set (map student_email (students db))
        then ((False, ''Email already exists.''), db)
      else ((True, ''''),
            \<lparr>students = students db @
               [\<lparr>student_id = next_rowid db, student_name = the (data ''name''),
                 student_email = the (data ''email''), student_phone = the (data ''phone''),
                 student_college = the (data ''college''),
                 student_department = the (data ''department''),
                 student_year = the (data ''year''), student_address = the (data ''address''),
                 student_city = the (data ''city''), student_state = the (data ''state''),
                 student_pincode = the (data ''pincode''),
                 date_added = the (data ''date_added''),
                 last_modified = the (data ''last_modified'')\<rparr>],
             sqlite_sequence = next_rowid db\<rparr>))"
proof -
  have "getitems data insert_keys = Inr (map (\<lambda>k. the (data k)) insert_keys)"
    using assms by (rule getitems_present)
  then show ?thesis
    by (simp add: insert_student_def insert_keys_def sql_insert_def unique_violation_def
        message_of_email_index message_of_phone_index Let_def del: py_in.simps)
qed

lemma update_student_True_keys:
  assumes "update_student db sid data = ((True, m), db')"
  shows "set update_keys \<subseteq> dom data"
proof (cases "getitems data update_keys")
  case (Inl e)
  then obtain k where "e = KeyError k"
    using getitems_Inl_KeyError by blast
  with Inl assms show ?thesis
    by (simp add: update_student_def)
next
  case (Inr vs)
  then show ?thesis
    by (rule getitems_Inr_dom)
qed

lemma update_student_result:
  assumes "set update_keys \<subseteq> dom data"
  shows "update_student db sid data =
     (if filter (\<lambda>r. student_id r = sid) (students db) = []
        then ((False, ''No row updated (ID may not exist).''), db)
      else if the (data ''phone'')
              \<in> set (map student_phone (filter (\<lambda>r. student_id r \<noteq> sid) (students db)))
        then ((False, ''Phone already exists.''), db)
      else if the (data ''email'')
              \<in> set (map student_email (filter (\<lambda>r. student_id r \<noteq> sid) (students db)))
        then ((False, ''Email already exists.''), db)
      else ((True, ''''),
            db\<lparr>students :=
                 map (\<lambda>r. if student_id r = sid
                           then \<lparr>student_id = student_id r, student_name = the (data ''name''),
                                 student_email = the (data ''email''),
                                 student_phone = the (data ''phone''),
                                 student_college = the (data ''college''),
                                 student_department = the (data ''department''),
                                 student_year = the (data ''year''),
                                 student_address = the (data ''address''),
                                 student_city = the (data ''city''),
                                 student_state = the (data ''state''),
                                 student_pincode = the (data ''pincode''),
                                 date_added = date_added r,
                                 last_modified = the (data ''last_modified'')\<rparr>
                           else r)
                   (students db)\<rparr>))"
proof -
  have "getitems data update_keys = Inr (map (\<lambda>k. the (data k)) update_keys)"
    using assms by (rule getitems_present)
  then show ?thesis
    by (simp add: update_student_def update_keys_def sql_update_def unique_violation_def
        set_columns_def message_of_email_index message_of_phone_index Let_def
        del: py_in.simps)
qed

lemma add_student_cases:
  "(\<exists>msg. add_student db w now = (ShowError ''Validation'' msg, db))
   \<or> (\<exists>err. add_student db w now = (ShowError ''Error'' err, db))
   \<or> (\<exists>r. add_student db w now =
            (ShowInfo ''Success'' ''Student added'',
             \<lparr>students = students db @ [r], sqlite_sequence = next_rowid db\<rparr>)
          \<and> date_added r = now \<and> last_modified r = now)"
proof (cases "get_form w")
  case (Inl a)
  then show ?thesis
    by (cases a) (simp add: add_student_def)
next
  case (Inr data)
  have "set insert_keys \<subseteq> dom (data(''date_added'' \<mapsto> now, ''last_modified'' \<mapsto> now))"
    using get_form_keys [OF Inr] by (auto simp: insert_keys_def)
  from insert_student_result [OF this, of db] show ?thesis
    using Inr by (simp add: add_student_def)
qed

lemma update_student_app_cases:
  "snd (update_student_app db sel w now) = db
   \<or> (\<exists>sid g. sel = Some sid
         \<and> (\<forall>r. date_added (g r) = date_added r \<and> last_modified (g r) = now)
         \<and> snd (update_student_app db sel w now) =
             db\<lparr>students := map (\<lambda>r. if student_id r = sid then g r else r) (students db)\<rparr>)"
proof (cases sel)
  case None
  then show ?thesis
    by (simp add: update_student_app_def)
next
  case (Some sid)
  show ?thesis
  proof (cases "get_form w")
    case (Inl a)
    then show ?thesis
      using Some by (cases a) (simp add: update_student_app_def)
  next
    case (Inr data)
    define d where "d = data(''last_modified'' \<mapsto> now)"
    define g where "g = (\<lambda>r :: student. \<lparr>student_id = student_id r, student_name = the (d ''name''),
                                 student_email = the (d ''email''),
                                 student_phone = the (d ''phone''),
                                 student_college = the (d ''college''),
                                 student_department = the (d ''department''),
                                 student_year = the (d ''year''),
                                 student_address = the (d ''address''),
                                 student_city = the (d ''city''),
                                 student_state = the (d ''state''),
                                 student_pincode = the (d ''pincode''),
                                 date_added = date_added r,
                                 last_modified = the (d ''last_modified'')\<rparr>)"
    have g: "\<forall>r. date_added (g r) = date_added r \<and> last_modified (g r) = now"
      by (simp add: g_def d_def)
    have "set update_keys \<subseteq> dom d"
      using get_form_keys [OF Inr] by (auto simp: update_keys_def d_def)
    from update_student_result [OF this, of db sid]
    have "snd (update_student db sid d) = db
      \<or> snd (update_student db sid d) =
          db\<lparr>students := map (\<lambda>r. if student_id r = sid then g r else r) (students db)\<rparr>"
      unfolding g_def by (simp split: if_splits)
    moreover have "snd (update_student_app db sel w now) = snd (update_student db sid d)"
      using Some Inr by (simp add: update_student_app_def d_def split: prod.splits)
    ultimately show ?thesis
      using Some g by auto
  qed
qed

subsection \<open>Updates in detail\<close>

lemma update_student_True_effect:
  assumes "update_student db sid data = ((True, m), db')"
  shows "\<exists>name email phone college department year address city state pincode modified.
      data ''name'' = Some name \<and> data ''email'' = Some email \<and> data ''phone'' = Some phone
    \<and> data ''college'' = Some college \<and> data ''department'' = Some department
    \<and> data ''year'' = Some year \<and> data ''address'' = Some address \<and> data ''city'' = Some city
    \<and> data ''state'' = Some state \<and> data ''pincode'' = Some pincode
    \<and> data ''last_modified'' = Some modified
    \<and> students db' =
        map (\<lambda>r. if student_id r = sid
                  then \<lparr>student_id = student_id r, student_name = name, student_email = email,
                        student_phone = phone, student_college = college,
                        student_department = department, student_year = year,
                        student_address = address, student_city = city,
                        student_state = state, student_pincode = pincode,
                        date_added = date_added r, last_modified = modified\<rparr>
                  else r)
          (students db)
    \<and> sqlite_sequence db' = sqlite_sequence db
    \<and> sid \<in> set (map student_id (students db))"
proof -
  have keys: "set update_keys \<subseteq> dom data"
    using assms by (rule update_student_True_keys)
  then have present:
    "data ''name'' = Some (the (data ''name''))" "data ''email'' = Some (the (data ''email''))"
    "data ''phone'' = Some (the (data ''phone''))"
    "data ''college'' = Some (the (data ''college''))"
    "data ''department'' = Some (the (data ''department''))"
    "data ''year'' = Some (the (data ''year''))"
    "data ''address'' = Some (the (data ''address''))"
    "data ''city'' = Some (the (data ''city''))" "data ''state'' = Some (the (data ''state''))"
    "data ''pincode'' = Some (the (data ''pincode''))"
    "data ''last_modified'' = Some (the (data ''last_modified''))"
    by (auto simp: update_keys_def)
  have found: "filter (\<lambda>r. student_id r = sid) (students db) \<noteq> []"
    using assms unfolding update_student_result [OF keys] by (simp split: if_splits)
  then have "sid \<in> set (map student_id (students db))"
    by (auto simp: filter_empty_conv)
  moreover have "students db' =
        map (\<lambda>r. if student_id r = sid
                  then \<lparr>student_id = student_id r, student_name = the (data ''name''),
                        student_email = the (data ''email''),
                        student_phone = the (data ''phone''),
                        student_college = the (data ''college''),
                        student_department = the (data ''department''),
                        student_year = the (data ''year''),
                        student_address = the (data ''address''),
                        student_city = the (data ''city''),
                        student_state = the (data ''state''),
                        student_pincode = the (data ''pincode''),
                        date_added = date_added r,
                        last_modified = the (data ''last_modified'')\<rparr>
                  else r)
          (students db)
      \<and> sqlite_sequence db' = sqlite_sequence db"
    using assms unfolding update_student_result [OF keys] by (auto split: if_splits)
  ultimately show ?thesis
    using present by blast
qed

lemma get_form_values:
  assumes "get_form w = Inr data"
  shows "data ''name'' = Some (strip (name_get w))"
    "data ''email'' = Some (strip (email_get w))"
    "data ''phone'' = Some (re_sub_phone (strip (phone_get w)))"
    "data ''college'' = Some (strip (college_get w))"
    "data ''department'' = Some (strip (department_get w))"
    "data ''year'' = Some (strip (year_get w))"
    "data ''address'' = Some (strip (address_get w))"
    "data ''city'' = Some (strip (city_get w))"
    "data ''state'' = Some (strip (state_get w))"
    "data ''pincode'' = Some (strip (pincode_get w))"
  using assms by (auto simp: get_form_def Let_def split: if_splits)

lemma update_student_refused_unchanged:
  "fst (update_student db sid data) \<noteq> (True, '''') \<Longrightarrow> snd (update_student db sid data) = db"
proof (cases "getitems data update_keys")
  case (Inl e)
  then obtain k where "e = KeyError k"
    using getitems_Inl_KeyError by blast
  with Inl show ?thesis
    by (simp add: update_student_def)
next
  case (Inr vs)
  assume refused: "fst (update_student db sid data) \<noteq> (True, '''')"
  have "set update_keys \<subseteq> dom data"
    using Inr by (rule getitems_Inr_dom)
  from update_student_result [OF this, of db sid] refused show ?thesis
    by (simp split: if_splits)
qed

lemma update_student_True_message:
  "fst (fst (update_student db sid data)) \<Longrightarrow> fst (update_student db sid data) = (True, '''')"
  by (auto simp: update_student_def Let_def split: sum.splits exn.splits prod.splits if_splits)

lemma update_student_app_form:
  assumes "get_form w = Inr form"
  shows "update_student_app db (Some sid) w now =
     (if fst (update_student db sid (form(''last_modified'' \<mapsto> now))) = (True, '''')
      then (ShowInfo ''Success'' ''Updated'',
            snd (update_student db sid (form(''last_modified'' \<mapsto> now))))
      else (ShowError ''Error''
              (snd (fst (update_student db sid (form(''last_modified'' \<mapsto> now))))),
            snd (update_student db sid (form(''last_modified'' \<mapsto> now)))))"
proof -
  obtain success err db' where
    res: "update_student db sid (form(''last_modified'' \<mapsto> now)) = ((success, err), db')"
    by (metis surj_pair)
  show ?thesis
    using assms res update_student_True_message [of db sid "form(''last_modified'' \<mapsto> now)"]
    by (auto simp: update_student_app_def)
qed

lemma update_student_succeeds_iff:
  assumes "set update_keys \<subseteq> dom data"
  shows "fst (update_student db sid data) = (True, '''') \<longleftrightarrow>
     sid \<in> set (map student_id (students db))
     \<and> the (data ''phone'')
         \<notin> set (map student_phone (filter (\<lambda>r. student_id r \<noteq> sid) (students db)))
     \<and> the (data ''email'')
         \<notin> set (map student_email (filter (\<lambda>r. student_id r \<noteq> sid) (students db)))"
  unfolding update_student_result [OF assms] by (auto simp: filter_empty_conv)

section \<open>The validators and the form\<close>

text \<open>
  Claim C4. \<open>get_form\<close> checks the name, the email, the phone and the pincode in this
  order and stops at the first check that fails: the message and the focused widget are
  those of the first invalid field, and the result is the same whatever the later fields
  hold (\<open>w'\<close> is any other state of the entries that agrees with \<open>w\<close> up to that field).
  When all four checks pass, the dictionary is returned.
\<close>

theorem get_form_first_failure:
  fixes w w' :: entries
  defines "name \<equiv> strip (name_get w)"
    and "email \<equiv> strip (email_get w)"
    and "phone \<equiv> re_sub_phone (strip (phone_get w))"
    and "pincode \<equiv> strip (pincode_get w)"
  shows "(\<not> fst (validate_name name) \<longrightarrow>
            get_form w = Inl (snd (validate_name name), NameEntry)
            \<and> (name_get w' = name_get w \<longrightarrow> get_form w' = get_form w))
    \<and> (fst (validate_name name) \<and> \<not> fst (validate_email email) \<longrightarrow>
            get_form w = Inl (snd (validate_email email), EmailEntry)
            \<and> (name_get w' = name_get w \<and> email_get w' = email_get w \<longrightarrow>
                 get_form w' = get_form w))
    \<and> (fst (validate_name name) \<and> fst (validate_email email)
         \<and> \<not> fst (validate_phone phone) \<longrightarrow>
            get_form w = Inl (snd (validate_phone phone), PhoneEntry)
            \<and> (name_get w' = name_get w \<and> email_get w' = email_get w
                 \<and> phone_get w' = phone_get w \<longrightarrow> get_form w' = get_form w))
    \<and> (fst (validate_name name) \<and> fst (validate_email email) \<and> fst (validate_phone phone)
         \<and> \<not> fst (validate_pincode pincode) \<longrightarrow>
            get_form w = Inl (snd (validate_pincode pincode), PincodeEntry))
    \<and> (fst (validate_name name) \<and> fst (validate_email email) \<and> fst (validate_phone phone)
         \<and> fst (validate_pincode pincode) \<longrightarrow> (\<exists>data. get_form w = Inr data))"
  unfolding name_def email_def phone_def pincode_def
  by (simp add: get_form_def Let_def)

theorem get_form_first_failure_witness:
  "get_form (ann\<lparr>name_get := ''A'', email_get := ''''\<rparr>) =
     Inl (''Name must be at least 2 characters.'', NameEntry)
   \<and> get_form (ann\<lparr>name_get := ''A'', email_get := '''', pincode_get := ''1''\<rparr>) =
       get_form (ann\<lparr>name_get := ''A'', email_get := ''''\<rparr>)
   \<and> get_form (ann\<lparr>email_get := ''ann'', phone_get := ''1''\<rparr>) =
       Inl (''Invalid email format.'', EmailEntry)
   \<and> get_form (ann\<lparr>phone_get := ''12345'', pincode_get := ''1''\<rparr>) =
       Inl (''Phone must be 10-15 digits.'', PhoneEntry)
   \<and> get_form (ann\<lparr>pincode_get := ''1234''\<rparr>) =
       Inl (''Pincode must be 5 or 6 digits.'', PincodeEntry)
   \<and> (\<exists>data. get_form ann = Inr data)"
proof -
  let ?w1 = "ann\<lparr>name_get := ''A'', email_get := ''''\<rparr>"
  let ?w1' = "ann\<lparr>name_get := ''A'', email_get := '''', pincode_get := ''1''\<rparr>"
  let ?w2 = "ann\<lparr>email_get := ''ann'', phone_get := ''1''\<rparr>"
  let ?w3 = "ann\<lparr>phone_get := ''12345'', pincode_get := ''1''\<rparr>"
  let ?w4 = "ann\<lparr>pincode_get := ''1234''\<rparr>"
  have n1: "validate_name (strip (name_get ?w1)) = (False, ''Name must be at least 2 characters.'')"
    and s1: "name_get ?w1' = name_get ?w1"
    by code_simp+
  have n2: "fst (validate_name (strip (name_get ?w2)))"
    and e2: "validate_email (strip (email_get ?w2)) = (False, ''Invalid email format.'')"
    by code_simp+
  have n3: "fst (validate_name (strip (name_get ?w3)))"
    and e3: "fst (validate_email (strip (email_get ?w3)))"
    and p3: "validate_phone (re_sub_phone (strip (phone_get ?w3))) =
               (False, ''Phone must be 10-15 digits.'')"
    by code_simp+
  have n4: "fst (validate_name (strip (name_get ?w4)))"
    and e4: "fst (validate_email (strip (email_get ?w4)))"
    and p4: "fst (validate_phone (re_sub_phone (strip (phone_get ?w4))))"
    and c4: "validate_pincode (strip (pincode_get ?w4)) = (False, ''Pincode must be 5 or 6 digits.'')"
    by code_simp+
  have n5: "fst (validate_name (strip (name_get ann)))"
    and e5: "fst (validate_email (strip (email_get ann)))"
    and p5: "fst (validate_phone (re_sub_phone (strip (phone_get ann))))"
    and c5: "fst (validate_pincode (strip (pincode_get ann)))"
    by code_simp+
  have "get_form ?w1 = Inl (''Name must be at least 2 characters.'', NameEntry)
      \<and> get_form ?w1' = get_form ?w1"
    using get_form_first_failure [of ?w1 ?w1'] n1 s1 by simp
  moreover have "get_form ?w2 = Inl (''Invalid email format.'', EmailEntry)"
    using get_form_first_failure [of ?w2 ?w2] n2 e2 by simp
  moreover have "get_form ?w3 = Inl (''Phone must be 10-15 digits.'', PhoneEntry)"
    using get_form_first_failure [of ?w3 ?w3] n3 e3 p3 by simp
  moreover have "get_form ?w4 = Inl (''Pincode must be 5 or 6 digits.'', PincodeEntry)"
    using get_form_first_failure [of ?w4 ?w4] n4 e4 p4 c4 by simp
  moreover have "\<exists>data. get_form ann = Inr data"
    using get_form_first_failure [of ann ann] n5 e5 p5 c5 by simp
  ultimately show ?thesis
    by simp
qed

text \<open>
  Claim C5, as amended. \<open>validate_phone\<close> deletes every whitespace character (the class
  \<open>\s\<close>: tabs and line breaks as well as spaces), every hyphen and every parenthesis. It
  then returns the one failure \<open>Phone must be 10-15 digits.\<close> exactly when what remains is
  not all digits (in the sense of \<open>str.isdigit\<close>) or its length is outside 10 to 15, and
  accepts otherwise. \<open>98-765 (43210)\<close> is accepted; what remains of it is \<open>9876543210\<close>.
\<close>

theorem validate_phone_accepts_iff:
  "re_sub_phone s =
     filter (\<lambda>c. \<not> py_isspace c \<and> c \<noteq> CHR ''-'' \<and> c \<noteq> CHR ''('' \<and> c \<noteq> CHR '')'') s
   \<and> (validate_phone s = (False, ''Phone must be 10-15 digits.'') \<or> validate_phone s = (True, ''''))
   \<and> (validate_phone s = (False, ''Phone must be 10-15 digits.'') \<longleftrightarrow>
        (\<not> list_all py_isdigit (re_sub_phone s) \<or> length (re_sub_phone s) < 10
         \<or> 15 < length (re_sub_phone s)))
   \<and> validate_phone ''98-765 (43210)'' = (True, '''')
   \<and> re_sub_phone ''98-765 (43210)'' = ''9876543210''"
proof -
  have "re_sub_phone s =
     filter (\<lambda>c. \<not> py_isspace c \<and> c \<noteq> CHR ''-'' \<and> c \<noteq> CHR ''('' \<and> c \<noteq> CHR '')'') s"
    by (simp add: re_sub_phone_def)
  moreover have "validate_phone s = (False, ''Phone must be 10-15 digits.'') \<or> validate_phone s = (True, '''')"
    by (simp add: validate_phone_def Let_def)
  moreover have "validate_phone s = (False, ''Phone must be 10-15 digits.'') \<longleftrightarrow>
        (\<not> list_all py_isdigit (re_sub_phone s) \<or> length (re_sub_phone s) < 10
         \<or> 15 < length (re_sub_phone s))"
    by (auto simp: validate_phone_def Let_def isdigit_def)
  moreover have "validate_phone ''98-765 (43210)'' = (True, '''')"
    by code_simp
  moreover have "re_sub_phone ''98-765 (43210)'' = ''9876543210''"
    by code_simp
  ultimately show ?thesis by blast
qed

theorem validate_phone_accepts_iff_witness:
  "validate_phone ''12345'' = (False, ''Phone must be 10-15 digits.'')
   \<and> length (re_sub_phone ''12345'') < 10"
proof -
  have short: "length (re_sub_phone ''12345'') < 10"
    by code_simp
  with validate_phone_accepts_iff [of "''12345''"] show ?thesis
    by blast
qed

text \<open>
  Claim C5 as stated strips spaces, hyphens and parentheses only. A phone number with a
  tab between its two halves is accepted by the code, although what remains of it after
  spaces, hyphens and parentheses are stripped still holds the tab and so is not all
  digits.
\<close>

theorem validate_phone_tab_counterexample:
  "validate_phone (''98765'' @ [CHR 0x09] @ ''43210'') = (True, '''')
   \<and> \<not> list_all py_isdigit (spec_strip_phone (''98765'' @ [CHR 0x09] @ ''43210''))"
  by code_simp

section \<open>Inserting\<close>

text \<open>
  Claim C2, as amended. A successful \<open>insert_student\<close> returns \<open>(True, '')\<close>, the flag and
  an empty message, and not the key. The key the store assigned is that of the one new
  row: it is one more than the largest key the table holds or ever held, so it is larger
  than every key in the table, and the new row is the first that \<open>get_all_students\<close>
  returns afterwards.
\<close>

theorem insert_student_success:
  assumes "insert_student db data = ((True, m), db')"
  shows "m = ''''
    \<and> (\<exists>r. students db' = students db @ [r]
          \<and> student_id r = next_rowid db
          \<and> sqlite_sequence db' = student_id r
          \<and> sqlite_sequence db < student_id r
          \<and> (\<forall>r' \<in> set (students db). student_id r' < student_id r)
          \<and> get_all_students db' = select_columns r # get_all_students db)"
proof -
  have keys: "set insert_keys \<subseteq> dom data"
    using assms by (rule insert_student_True_keys)
  define r where "r =
     \<lparr>student_id = next_rowid db, student_name = the (data ''name''),
      student_email = the (data ''email''), student_phone = the (data ''phone''),
      student_college = the (data ''college''),
      student_department = the (data ''department''),
      student_year = the (data ''year''), student_address = the (data ''address''),
      student_city = the (data ''city''), student_state = the (data ''state''),
      student_pincode = the (data ''pincode''),
      date_added = the (data ''date_added''),
      last_modified = the (data ''last_modified'')\<rparr>"
  have res: "m = '''' \<and> db' = \<lparr>students = students db @ [r], sqlite_sequence = next_rowid db\<rparr>"
    using assms unfolding insert_student_result [OF keys] r_def
    by (simp split: if_splits)
  have id: "student_id r = next_rowid db"
    by (simp add: r_def)
  have fresh: "\<forall>r' \<in> set (students db). - student_id r < - student_id r'"
    using next_rowid_fresh [of db] id by simp
  have "order_by_id_desc (students db @ [r]) = r # order_by_id_desc (students db)"
    unfolding order_by_id_desc_def using fresh by (rule sort_key_new_least)
  then have "get_all_students db' = select_columns r # get_all_students db"
    using res by (simp add: get_all_students_def)
  then show ?thesis
    using res id next_rowid_fresh [of db] by auto
qed

theorem insert_student_success_witness:
  "insert_student ann_db bob_data = ((True, ''''), ann_bob_db)
   \<and> (\<exists>r. students ann_bob_db = students ann_db @ [r] \<and> student_id r = next_rowid ann_db
         \<and> get_all_students ann_bob_db = select_columns r # get_all_students ann_db)"
proof -
  have ins: "insert_student ann_db bob_data = ((True, ''''), ann_bob_db)"
    by code_simp
  from insert_student_success [OF ins] ins show ?thesis
    by blast
qed

text \<open>
  Claim C2 as stated has the insert return the key. Two inserts, which are assigned the
  keys 1 and 2, return the same value \<open>(True, '')\<close>.
\<close>

theorem insert_student_returns_no_id_counterexample:
  "fst (insert_student new_database ann_data) = (True, '''')
   \<and> map student_id (students (snd (insert_student new_database ann_data))) = [1]
   \<and> fst (insert_student ann_db bob_data) = (True, '''')
   \<and> map student_id (students (snd (insert_student ann_db bob_data))) = [1, 2]"
  by code_simp

text \<open>
  Claim C3, as amended. For a dictionary that holds all twelve keys: when its phone is
  already in the table, the insert fails with \<open>Phone already exists.\<close>, whatever the email;
  when its email is already in the table and its phone is not, the insert fails with
  \<open>Email already exists.\<close>; in both cases the table is unchanged, and the message names
  the column of the index that failed. When neither is in the table the insert succeeds.
\<close>

theorem insert_student_duplicate:
  assumes "set insert_keys \<subseteq> dom data"
    and "data ''email'' = Some e"
    and "data ''phone'' = Some p"
  shows "(p \<in> set (map student_phone (students db)) \<longrightarrow>
            insert_student db data = ((False, ''Phone already exists.''), db))
    \<and> (e \<in> set (map student_email (students db))
         \<and> p \<notin> set (map student_phone (students db)) \<longrightarrow>
            insert_student db data = ((False, ''Email already exists.''), db))
    \<and> (e \<notin> set (map student_email (students db))
         \<and> p \<notin> set (map student_phone (students db)) \<longrightarrow>
            fst (insert_student db data) = (True, ''''))"
  unfolding insert_student_result [OF assms(1)] using assms(2,3)
  by simp

theorem insert_student_duplicate_witness:
  "insert_student ann_db (ann_data(''email'' \<mapsto> ''new@x.com'')) =
     ((False, ''Phone already exists.''), ann_db)
   \<and> insert_student ann_db (ann_data(''phone'' \<mapsto> ''1234567890'')) =
     ((False, ''Email already exists.''), ann_db)
   \<and> fst (insert_student ann_db bob_data) = (True, '''')"
proof -
  have k1: "set insert_keys \<subseteq> dom (ann_data(''email'' \<mapsto> ''new@x.com''))"
    and k2: "set insert_keys \<subseteq> dom (ann_data(''phone'' \<mapsto> ''1234567890''))"
    and k3: "set insert_keys \<subseteq> dom bob_data"
    by (simp_all add: insert_keys_def ann_data_def bob_data_def)
  have "''9876543210'' \<in> set (map student_phone (students ann_db))"
    and "''ann@x.com'' \<in> set (map student_email (students ann_db))"
    and "''1234567890'' \<notin> set (map student_phone (students ann_db))"
    and "''bob@x.com'' \<notin> set (map student_email (students ann_db))"
    by (simp_all add: ann_db_def ann_row_def)
  then show ?thesis
    using insert_student_duplicate [OF k1, of "''new@x.com''" "''9876543210''" ann_db]
      insert_student_duplicate [OF k2, of "''ann@x.com''" "''1234567890''" ann_db]
      insert_student_duplicate [OF k3, of "''bob@x.com''" "''1234567890''" ann_db]
    by (simp add: ann_data_def bob_data_def)
qed

text \<open>
  Claim C3 as stated reports the email whatever the phone. The index of the phone is
  checked first: inserting Ann Lee a second time, with the email and the phone of the row
  in the table, fails with \<open>Phone already exists.\<close>.
\<close>

theorem insert_student_both_collide_counterexample:
  "ann_data ''email'' = Some ''ann@x.com''
   \<and> ''ann@x.com'' \<in> set (map student_email (students ann_db))
   \<and> insert_student ann_db ann_data = ((False, ''Phone already exists.''), ann_db)"
  by code_simp

section \<open>Updating\<close>

text \<open>
  Claim C6. A successful \<open>update_student\<close> for the key \<open>sid\<close> returns \<open>(True, '')\<close>; a row
  with that key existed, the dictionary held all eleven values, and the table is the old
  one with the ten form columns and \<open>last_modified\<close> of the row with that key replaced by
  the values supplied, its \<open>student_id\<close> and \<open>date_added\<close> kept; every other row, the
  order of the rows and the key counter are untouched. With all eleven values supplied
  the update succeeds exactly when a row has the key and neither the phone nor the email
  supplied is held by a row with another key; an update that does not succeed leaves the
  database as it was. Through the handler \<open>update_student\<close> of the application, the values
  written are those of the form, stripped, and \<open>last_modified\<close> is refreshed to the clock
  reading taken by the handler.
\<close>

theorem update_student_replaces_fields:
  "(update_student db sid data = ((True, m), db') \<longrightarrow>
      m = ''''
      \<and> (\<exists>name email phone college department year address city state pincode modified.
            data ''name'' = Some name \<and> data ''email'' = Some email
          \<and> data ''phone'' = Some phone \<and> data ''college'' = Some college
          \<and> data ''department'' = Some department \<and> data ''year'' = Some year
          \<and> data ''address'' = Some address \<and> data ''city'' = Some city
          \<and> data ''state'' = Some state \<and> data ''pincode'' = Some pincode
          \<and> data ''last_modified'' = Some modified
          \<and> students db' =
              map (\<lambda>r. if student_id r = sid
                        then \<lparr>student_id = student_id r, student_name = name,
                              student_email = email, student_phone = phone,
                              student_college = college, student_department = department,
                              student_year = year, student_address = address,
                              student_city = city, student_state = state,
                              student_pincode = pincode, date_added = date_added r,
                              last_modified = modified\<rparr>
                        else r)
                (students db)
          \<and> sqlite_sequence db' = sqlite_sequence db
          \<and> sid \<in> set (map student_id (students db))))
   \<and> (set update_keys \<subseteq> dom data \<longrightarrow>
        (fst (update_student db sid data) = (True, '''') \<longleftrightarrow>
           sid \<in> set (map student_id (students db))
           \<and> the (data ''phone'')
               \<notin> set (map student_phone (filter (\<lambda>r. student_id r \<noteq> sid) (students db)))
           \<and> the (data ''email'')
               \<notin> set (map student_email (filter (\<lambda>r. student_id r \<noteq> sid) (students db)))))
   \<and> (fst (update_student db sid data) \<noteq> (True, '''') \<longrightarrow>
        snd (update_student db sid data) = db)
   \<and> (get_form w = Inr form \<longrightarrow>
        (fst (update_student_app db (Some sid) w now) = ShowInfo ''Success'' ''Updated'' \<longleftrightarrow>
           sid \<in> set (map student_id (students db))
           \<and> re_sub_phone (strip (phone_get w))
               \<notin> set (map student_phone (filter (\<lambda>r. student_id r \<noteq> sid) (students db)))
           \<and> strip (email_get w)
               \<notin> set (map student_email (filter (\<lambda>r. student_id r \<noteq> sid) (students db))))
        \<and> (fst (update_student_app db (Some sid) w now) = ShowInfo ''Success'' ''Updated'' \<longrightarrow>
             students (snd (update_student_app db (Some sid) w now)) =
               map (\<lambda>r. if student_id r = sid
                         then \<lparr>student_id = student_id r,
                               student_name = strip (name_get w),
                               student_email = strip (email_get w),
                               student_phone = re_sub_phone (strip (phone_get w)),
                               student_college = strip (college_get w),
                               student_department = strip (department_get w),
                               student_year = strip (year_get w),
                               student_address = strip (address_get w),
                               student_city = strip (city_get w),
                               student_state = strip (state_get w),
                               student_pincode = strip (pincode_get w),
                               date_added = date_added r, last_modified = now\<rparr>
                         else r)
                 (students db)
             \<and> sqlite_sequence (snd (update_student_app db (Some sid) w now)) =
                 sqlite_sequence db)
        \<and> (fst (update_student_app db (Some sid) w now) \<noteq> ShowInfo ''Success'' ''Updated'' \<longrightarrow>
             snd (update_student_app db (Some sid) w now) = db))"
  (is "?effect \<and> ?succeeds \<and> ?refused \<and> ?handler")
proof (intro conjI)
  show ?effect
  proof
    assume upd: "update_student db sid data = ((True, m), db')"
    then have "fst (fst (update_student db sid data))"
      by simp
    then have "m = ''''"
      using update_student_True_message [of db sid data] upd by simp
    from this update_student_True_effect [OF upd] show "m = '''' \<and>
      (\<exists>name email phone college department year address city state pincode modified.
            data ''name'' = Some name \<and> data ''email'' = Some email
          \<and> data ''phone'' = Some phone \<and> data ''college'' = Some college
          \<and> data ''department'' = Some department \<and> data ''year'' = Some year
          \<and> data ''address'' = Some address \<and> data ''city'' = Some city
          \<and> data ''state'' = Some state \<and> data ''pincode'' = Some pincode
          \<and> data ''last_modified'' = Some modified
          \<and> students db' =
              map (\<lambda>r. if student_id r = sid
                        then \<lparr>student_id = student_id r, student_name = name,
                              student_email = email, student_phone = phone,
                              student_college = college, student_department = department,
                              student_year = year, student_address = address,
                              student_city = city, student_state = state,
                              student_pincode = pincode, date_added = date_added r,
                              last_modified = modified\<rparr>
                        else r)
                (students db)
          \<and> sqlite_sequence db' = sqlite_sequence db
          \<and> sid \<in> set (map student_id (students db)))"
      by (rule conjI)
  qed
next
  show ?succeeds
    using update_student_succeeds_iff [of data db sid] by blast
next
  show ?refused
    using update_student_refused_unchanged [of db sid data] by blast
next
  show ?handler
  proof
    assume form: "get_form w = Inr form"
    define d where "d = form(''last_modified'' \<mapsto> now)"
    have keys: "set update_keys \<subseteq> dom d"
      using get_form_keys [OF form] by (auto simp: update_keys_def d_def)
    have vals: "the (d ''name'') = strip (name_get w)"
      "the (d ''email'') = strip (email_get w)"
      "the (d ''phone'') = re_sub_phone (strip (phone_get w))"
      "the (d ''college'') = strip (college_get w)"
      "the (d ''department'') = strip (department_get w)"
      "the (d ''year'') = strip (year_get w)"
      "the (d ''address'') = strip (address_get w)"
      "the (d ''city'') = strip (city_get w)"
      "the (d ''state'') = strip (state_get w)"
      "the (d ''pincode'') = strip (pincode_get w)"
      "the (d ''last_modified'') = now"
      using get_form_values [OF form] by (simp_all add: d_def)
    have app: "update_student_app db (Some sid) w now =
       (if fst (update_student db sid d) = (True, '''')
        then (ShowInfo ''Success'' ''Updated'', snd (update_student db sid d))
        else (ShowError ''Error'' (snd (fst (update_student db sid d))),
              snd (update_student db sid d)))"
      unfolding d_def using form by (rule update_student_app_form)
    show "(fst (update_student_app db (Some sid) w now) = ShowInfo ''Success'' ''Updated'' \<longleftrightarrow>
           sid \<in> set (map student_id (students db))
           \<and> re_sub_phone (strip (phone_get w))
               \<notin> set (map student_phone (filter (\<lambda>r. student_id r \<noteq> sid) (students db)))
           \<and> strip (email_get w)
               \<notin> set (map student_email (filter (\<lambda>r. student_id r \<noteq> sid) (students db))))
        \<and> (fst (update_student_app db (Some sid) w now) = ShowInfo ''Success'' ''Updated'' \<longrightarrow>
             students (snd (update_student_app db (Some sid) w now)) =
               map (\<lambda>r. if student_id r = sid
                         then \<lparr>student_id = student_id r,
                               student_name = strip (name_get w),
                               student_email = strip (email_get w),
                               student_phone = re_sub_phone (strip (phone_get w)),
                               student_college = strip (college_get w),
                               student_department = strip (department_get w),
                               student_year = strip (year_get w),
                               student_address = strip (address_get w),
                               student_city = strip (city_get w),
                               student_state = strip (state_get w),
                               student_pincode = strip (pincode_get w),
                               date_added = date_added r, last_modified = now\<rparr>
                         else r)
                 (students db)
             \<and> sqlite_sequence (snd (update_student_app db (Some sid) w now)) =
                 sqlite_sequence db)
        \<and> (fst (update_student_app db (Some sid) w now) \<noteq> ShowInfo ''Success'' ''Updated'' \<longrightarrow>
             snd (update_student_app db (Some sid) w now) = db)"
      unfolding app update_student_result [OF keys] vals
      by (auto simp: filter_empty_conv)
  qed
qed

theorem update_student_replaces_fields_witness:
  "update_student ann_bob_db 1 cy_update = ((True, ''''), cy_bob_db)
   \<and> students ann_bob_db = [ann_row, bob_row]
   \<and> students cy_bob_db = [cy_row, bob_row]
   \<and> sqlite_sequence cy_bob_db = sqlite_sequence ann_bob_db
   \<and> fst (update_student ann_bob_db 1 (cy_update(''phone'' \<mapsto> ''1234567890''))) \<noteq> (True, '''')
   \<and> snd (update_student ann_bob_db 1 (cy_update(''phone'' \<mapsto> ''1234567890''))) = ann_bob_db
   \<and> fst (update_student ann_bob_db 3 cy_update) \<noteq> (True, '''')
   \<and> snd (update_student ann_bob_db 3 cy_update) = ann_bob_db
   \<and> fst (update_student ann_bob_db 2 (cy_update(''phone'' \<mapsto> ''1234567890''))) = (True, '''')
   \<and> fst (update_student_app ann_bob_db (Some 1) cy ''2024-11-03 03:00:00'') =
       ShowInfo ''Success'' ''Updated''
   \<and> snd (update_student_app ann_bob_db (Some 1) cy ''2024-11-03 03:00:00'') = cy_bob_db"
proof -
  let ?taken = "cy_update(''phone'' \<mapsto> ''1234567890'')"
  let ?now = "''2024-11-03 03:00:00''"
  have k1: "set update_keys \<subseteq> dom cy_update" and k2: "set update_keys \<subseteq> dom ?taken"
    by (simp_all add: update_keys_def cy_update_def)
  have upd: "update_student ann_bob_db 1 cy_update = ((True, ''''), cy_bob_db)"
    by code_simp
  have tables: "students ann_bob_db = [ann_row, bob_row]" "students cy_bob_db = [cy_row, bob_row]"
    by (simp_all add: ann_bob_db_def cy_bob_db_def)
  have seq: "sqlite_sequence cy_bob_db = sqlite_sequence ann_bob_db"
    using update_student_replaces_fields [of ann_bob_db 1 cy_update "''''" cy_bob_db] upd
    by blast
  have rows: "map student_id (students ann_bob_db) = [1, 2]"
    "map student_phone (filter (\<lambda>r. student_id r \<noteq> 1) (students ann_bob_db)) =
       [''1234567890'']"
    "map student_email (filter (\<lambda>r. student_id r \<noteq> 1) (students ann_bob_db)) =
       [''bob@x.com'']"
    "map student_phone (filter (\<lambda>r. student_id r \<noteq> 2) (students ann_bob_db)) =
       [''9876543210'']"
    "map student_email (filter (\<lambda>r. student_id r \<noteq> 2) (students ann_bob_db)) =
       [''ann@x.com'']"
    by (simp_all add: ann_bob_db_def ann_row_def bob_row_def)
  have taken: "the (?taken ''phone'') = ''1234567890''" "the (?taken ''email'') = ''cy@x.com''"
    by (simp_all add: cy_update_def)
  have refused1: "fst (update_student ann_bob_db 1 ?taken) \<noteq> (True, '''')"
    using update_student_replaces_fields [of ann_bob_db 1 ?taken] k2 rows taken by simp
  then have same1: "snd (update_student ann_bob_db 1 ?taken) = ann_bob_db"
    using update_student_replaces_fields [of ann_bob_db 1 ?taken] by blast
  have refused3: "fst (update_student ann_bob_db 3 cy_update) \<noteq> (True, '''')"
    using update_student_replaces_fields [of ann_bob_db 3 cy_update] k1 rows by simp
  then have same3: "snd (update_student ann_bob_db 3 cy_update) = ann_bob_db"
    using update_student_replaces_fields [of ann_bob_db 3 cy_update] by blast
  have own: "fst (update_student ann_bob_db 2 ?taken) = (True, '''')"
    using update_student_replaces_fields [of ann_bob_db 2 ?taken] k2 rows taken by simp
  have "fst (validate_name (strip (name_get cy)))"
    "fst (validate_email (strip (email_get cy)))"
    "fst (validate_phone (re_sub_phone (strip (phone_get cy))))"
    "fst (validate_pincode (strip (pincode_get cy)))"
    by code_simp+
  then obtain form where form: "get_form cy = Inr form"
    by (simp add: get_form_def Let_def)
  have entered: "re_sub_phone (strip (phone_get cy)) = ''5555555555''"
    "strip (email_get cy) = ''cy@x.com''"
    by code_simp+
  have flag: "fst (update_student_app ann_bob_db (Some 1) cy ?now) =
      ShowInfo ''Success'' ''Updated''"
    using update_student_replaces_fields
      [of ann_bob_db 1 Map.empty "''''" ann_bob_db cy form ?now]
      form entered rows
    by simp
  have app: "snd (update_student_app ann_bob_db (Some 1) cy ?now) = cy_bob_db"
    by code_simp
  from upd tables seq refused1 same1 refused3 same3 own flag app show ?thesis
    by (intro conjI)
qed

section \<open>Timestamps\<close>

text \<open>
  Claim C7, as amended. A row created by \<open>add_student\<close> has \<open>date_added\<close> and
  \<open>last_modified\<close> both equal to the one clock reading. Adding and deleting keep
  \<open>last_modified \<ge> date_added\<close> on every row. Updating keeps it when the clock reading
  of the update is not earlier than \<open>date_added\<close> of the row updated; the code compares
  neither with the other.
\<close>

theorem timestamps_ordered_preserved:
  "(fst (add_student db w now) = ShowInfo ''Success'' ''Student added'' \<longrightarrow>
      (\<exists>r. students (snd (add_student db w now)) = students db @ [r]
          \<and> date_added r = now \<and> last_modified r = now))
   \<and> (timestamps_ordered db \<longrightarrow> timestamps_ordered (snd (add_student db w now)))
   \<and> (timestamps_ordered db \<longrightarrow>
        timestamps_ordered (snd (delete_student db sid))
        \<and> timestamps_ordered (snd (delete_student_app db sel confirm)))
   \<and> (timestamps_ordered db
        \<and> list_all (\<lambda>r. student_id r = sid \<longrightarrow> str_le (date_added r) now) (students db) \<longrightarrow>
        timestamps_ordered (snd (update_student_app db (Some sid) w now)))"
proof -
  have created: "fst (add_student db w now) = ShowInfo ''Success'' ''Student added'' \<longrightarrow>
      (\<exists>r. students (snd (add_student db w now)) = students db @ [r]
          \<and> date_added r = now \<and> last_modified r = now)"
    using add_student_cases [of db w now] by auto
  have add: "timestamps_ordered db \<longrightarrow> timestamps_ordered (snd (add_student db w now))"
    using add_student_cases [of db w now]
    by (auto simp: timestamps_ordered_def str_le_refl)
  have del: "timestamps_ordered db \<longrightarrow>
        timestamps_ordered (snd (delete_student db sid))
        \<and> timestamps_ordered (snd (delete_student_app db sel confirm))"
    by (auto simp: timestamps_ordered_def delete_student_def delete_student_app_def
        sql_delete_def list_all_iff split: option.splits)
  have upd: "timestamps_ordered db
        \<and> list_all (\<lambda>r. student_id r = sid \<longrightarrow> str_le (date_added r) now) (students db) \<longrightarrow>
        timestamps_ordered (snd (update_student_app db (Some sid) w now))"
    using update_student_app_cases [of db "Some sid" w now]
    by (auto simp: timestamps_ordered_def list_all_iff)
  from created add del upd show ?thesis
    by blast
qed

theorem timestamps_ordered_preserved_witness:
  "timestamps_ordered (snd (add_student ann_db bob ''2024-11-03 02:10:00''))
   \<and> timestamps_ordered (snd (delete_student ann_bob_db 1))
   \<and> timestamps_ordered (snd (update_student_app ann_db (Some 1) bob ''2024-11-03 03:00:00''))
   \<and> (\<exists>r. students (snd (add_student ann_db bob ''2024-11-03 02:10:00'')) = students ann_db @ [r]
          \<and> date_added r = ''2024-11-03 02:10:00'' \<and> last_modified r = ''2024-11-03 02:10:00'')"
proof -
  have a: "timestamps_ordered ann_db" and b: "timestamps_ordered ann_bob_db"
    and c: "list_all (\<lambda>r. student_id r = 1 \<longrightarrow> str_le (date_added r) ''2024-11-03 03:00:00'')
              (students ann_db)"
    and d: "fst (add_student ann_db bob ''2024-11-03 02:10:00'') =
              ShowInfo ''Success'' ''Student added''"
    by code_simp+
  show ?thesis
    using timestamps_ordered_preserved [of ann_db bob "''2024-11-03 02:10:00''" 1 None False]
      timestamps_ordered_preserved [of ann_bob_db bob "''2024-11-03 02:10:00''" 1 None False]
      timestamps_ordered_preserved [of ann_db bob "''2024-11-03 03:00:00''" 1 None False]
      a b c d
    by blast
qed

text \<open>
  Claim C7 as stated has every update keep the order. An update whose clock reading is
  earlier than the time the row was added, as after the clock was set back an hour,
  leaves \<open>last_modified\<close> before \<open>date_added\<close>.
\<close>

theorem update_student_clock_set_back_counterexample:
  "timestamps_ordered ann_db
   \<and> snd (update_student_app ann_db (Some 1) ann ''2024-11-03 01:00:05'') =
       \<lparr>students = [ann_row\<lparr>last_modified := ''2024-11-03 01:00:05''\<rparr>], sqlite_sequence = 1\<rparr>
   \<and> \<not> timestamps_ordered (snd (update_student_app ann_db (Some 1) ann ''2024-11-03 01:00:05''))"
  by code_simp

section \<open>Deleting\<close>

text \<open>
  Claim C1. Deleting a key that no row has is to be reported as not found. The code does
  not look at the number of rows deleted: on the table that holds only Ann Lee, with key
  1, \<open>delete_student\<close> for the key 2 returns the success \<open>(True, '')\<close> and leaves the
  table as it was.
\<close>

theorem delete_student_absent_key:
  "delete_student ann_db 2 = ((True, ''''), ann_db)"
  by code_simp

text \<open>
  The other half of claim C1 holds: after a delete, no row that \<open>get_all_students\<close>
  returns has the key.
\<close>

lemma delete_student_removes_key:
  "sid \<notin> set (map fst (get_all_students (snd (delete_student db sid))))"
proof -
  have "set (order_by_id_desc rs) = set rs" for rs
    by (simp add: order_by_id_desc_def)
  then show ?thesis
    by (auto simp: delete_student_def sql_delete_def get_all_students_def select_columns_def)
qed

section \<open>Listing and searching\<close>

text \<open>
  Claim C8. For every database, \<open>get_all_students\<close> returns every row of the table once,
  each as the tuple of its thirteen columns in the order id, name, email, phone, college,
  department, year, address, city, state, pincode, date_added, last_modified, and the
  keys of the rows returned are in descending order.
\<close>

theorem get_all_students_all_rows_descending:
  "mset (get_all_students db) =
     image_mset
       (\<lambda>r. (student_id r, student_name r, student_email r, student_phone r,
             student_college r, student_department r, student_year r, student_address r,
             student_city r, student_state r, student_pincode r, date_added r,
             last_modified r))
       (mset (students db))
   \<and> sorted_wrt (\<lambda>a b. b \<le> a) (map fst (get_all_students db))"
proof
  have "select_columns =
     (\<lambda>r. (student_id r, student_name r, student_email r, student_phone r,
             student_college r, student_department r, student_year r, student_address r,
             student_city r, student_state r, student_pincode r, date_added r,
             last_modified r))"
    by (rule ext) (simp add: select_columns_def)
  moreover have "mset (get_all_students db) = image_mset select_columns (mset (students db))"
    by (simp add: get_all_students_def mset_order_by_id_desc)
  ultimately show "mset (get_all_students db) =
     image_mset
       (\<lambda>r. (student_id r, student_name r, student_email r, student_phone r,
             student_college r, student_department r, student_year r, student_address r,
             student_city r, student_state r, student_pincode r, date_added r,
             last_modified r))
       (mset (students db))"
    by simp
next
  show "sorted_wrt (\<lambda>a b. b \<le> a) (map fst (get_all_students db))"
    using sorted_order_by_id_desc [of "students db"]
    by (simp add: get_all_students_def sorted_wrt_map select_columns_def)
qed

theorem get_all_students_all_rows_descending_witness:
  "sorted_wrt (\<lambda>a b. b \<le> a) (map fst (get_all_students ann_bob_db))
   \<and> get_all_students ann_bob_db = [select_columns bob_row, select_columns ann_row]"
proof
  show "sorted_wrt (\<lambda>a b. b \<le> a) (map fst (get_all_students ann_bob_db))"
    using get_all_students_all_rows_descending [of ann_bob_db] by (rule conjunct2)
next
  show "get_all_students ann_bob_db = [select_columns bob_row, select_columns ann_row]"
    by code_simp
qed

text \<open>
  Claim C9. For every database, the search with the empty term returns the same rows in
  the same order as \<open>get_all_students\<close>, both as the query of \<open>DatabaseManager\<close> and as the
  handler of the search entry.
\<close>

theorem search_students_empty_term:
  "search_students db '''' = get_all_students db
   \<and> search_students_app db '''' = get_all_students db"
  by (simp add: search_students_def get_all_students_def like_percent_percent
      search_students_app_def load_students_def strip_def)

theorem search_students_empty_term_witness:
  "search_students ann_bob_db '''' = [select_columns bob_row, select_columns ann_row]"
proof -
  have "get_all_students ann_bob_db = [select_columns bob_row, select_columns ann_row]"
    by code_simp
  with search_students_empty_term [of ann_bob_db] show ?thesis
    by simp
qed

text \<open>
  Claim C10. The search does not escape the metacharacters of \<open>LIKE\<close>: on the table that
  holds only Ann Lee, the search for the term \<open>%\<close> returns her row, and none of the six
  columns searched contains the character \<open>%\<close>.
\<close>

theorem search_students_percent_term:
  "search_students ann_db ''%'' = [select_columns ann_row]
   \<and> \<not> py_in ''%'' (student_name ann_row) \<and> \<not> py_in ''%'' (student_email ann_row)
   \<and> \<not> py_in ''%'' (student_phone ann_row) \<and> \<not> py_in ''%'' (student_college ann_row)
   \<and> \<not> py_in ''%'' (student_department ann_row) \<and> \<not> py_in ''%'' (student_city ann_row)"
  by code_simp

end
